theory Spec2Isabelle
  imports Complex_Main
begin

section \<open>JavaScript values used by Mesh.js\<close>

text \<open>
  A JavaScript \<open>number\<close> is modelled as a \<^typ>\<open>real\<close> (coordinates, alpha) or an
  \<^typ>\<open>int\<close> (packed colour, an entry of the index array).
  Reading an array outside its bounds does not throw in JavaScript: it yields
  \<open>undefined\<close>, which is \<open>None\<close> here.
\<close>

fun js_nth :: "'a list \<Rightarrow> nat \<Rightarrow> 'a option" where
  "js_nth [] n = None"
| "js_nth (a # as) 0 = Some a"
| "js_nth (a # as) (Suc n) = js_nth as n"

definition js_index :: "'a list \<Rightarrow> int \<Rightarrow> 'a option" where
  "js_index as i = (if i < 0 then None else js_nth as (nat i))"

text \<open>
  The optional \<open>colors\<close> and \<open>alphas\<close> arguments of \<open>addVertices\<close>
  (\<open>number|number[]\<close>, possibly \<open>undefined\<close>).
\<close>

datatype 'a number_or_array = Omitted | Scalar 'a | Array "'a list"

datatype error = Error string

datatype completion = Returned | Threw error

section \<open>Vertex, Face and Mesh\<close>

text \<open>
  \<open>Vertex.js\<close> and \<open>Face.js\<close> are required by \<open>Mesh.js\<close>; a vertex is the
  six arguments \<open>new Vertex(x, y, u, v, color, alpha)\<close> receives. The field \<open>oid\<close> is the
  identity of the object \<open>new\<close> allocates, so that two references to one vertex can be
  told from two vertices with equal fields.
\<close>

record vertex =
  oid :: nat
  vert_x :: "real option"
  vert_y :: "real option"
  vert_u :: "real option"
  vert_v :: "real option"
  vert_color :: "int option"
  vert_alpha :: "real option"

text \<open>
  \<open>new Face(vert1, vert2, vert3)\<close>: the three references are \<open>verts[i]\<close>,
  \<open>verts[i + 1]\<close> and \<open>verts[i + 2]\<close>, each of which may be \<open>undefined\<close>.
\<close>

record face =
  vertex1 :: "vertex option"
  vertex2 :: "vertex option"
  vertex3 :: "vertex option"

datatype animation_state = AnimationState nat

datatype graphics = Graphics nat

datatype debug_callback = RenderDebugVerts | Callback nat

datatype camera = Camera nat

text \<open>
  The fields of a Mesh that Mesh.js itself declares, the scene's main camera
  (\<open>this.scene.sys.cameras.main\<close>), and \<open>next_oid\<close>, the identity the next
  \<open>new Vertex\<close> receives.
\<close>

record mesh =
  anims :: "animation_state option"
  faces :: "face list"
  vertices :: "vertex list"
  tintFill :: bool
  debugCallback :: "debug_callback option"
  debugGraphic :: "graphics option"
  main_camera :: camera
  next_oid :: nat

text \<open>
  The state the constructor has reached when it calls \<open>addVertices\<close>.
\<close>

definition Mesh_init :: mesh where
  "Mesh_init = \<lparr> anims = Some (AnimationState 0), faces = [], vertices = [],
     tintFill = False, debugCallback = None, debugGraphic = None,
     main_camera = Camera 0, next_oid = 0 \<rparr>"

section \<open>clearVertices, getFaceCount, getVertexCount, getFace\<close>

text \<open>
  Modelled from the spec: \<open>Face.destroy\<close> (Face.js is not under src/) "releases its
  vertex references (does not destroy the vertices themselves)".
\<close>

definition Face_destroy :: "face \<Rightarrow> face" where
  "Face_destroy f = f\<lparr> vertex1 := None, vertex2 := None, vertex3 := None \<rparr>"

definition clearVertices :: "mesh \<Rightarrow> mesh" where
  "clearVertices m =
     (let m1 = m\<lparr> faces := map Face_destroy (faces m) \<rparr>;
          m2 = m1\<lparr> faces := [] \<rparr>;
          m3 = m2\<lparr> vertices := [] \<rparr>
      in m3)"

definition getFaceCount :: "mesh \<Rightarrow> nat" where
  "getFaceCount m = length (faces m)"

definition getVertexCount :: "mesh \<Rightarrow> nat" where
  "getVertexCount m = length (vertices m)"

definition getFace :: "mesh \<Rightarrow> int \<Rightarrow> face option" where
  "getFace m index = js_index (faces m) index"

section \<open>addVertices\<close>

text \<open>
  \<open>(isColorArray) ? colors[i] : colors\<close>, after the default has replaced an omitted
  argument.
\<close>

fun pick :: "'a number_or_array \<Rightarrow> nat \<Rightarrow> 'a option" where
  "pick (Array as) i = js_nth as i"
| "pick (Scalar a) i = Some a"
| "pick Omitted i = None"

fun or_default :: "'a number_or_array \<Rightarrow> 'a \<Rightarrow> 'a number_or_array" where
  "or_default Omitted d = Scalar d"
| "or_default c d = c"

text \<open>
  \<open>vert = new Vertex(x, y, u, v, color, alpha); verts.push(vert)\<close>, where \<open>verts\<close>
  is \<open>this.vertices\<close>.
\<close>

definition push_vertex ::
  "mesh \<Rightarrow> real option \<Rightarrow> real option \<Rightarrow> real option \<Rightarrow> real option \<Rightarrow> int option \<Rightarrow> real option \<Rightarrow> mesh" where
  "push_vertex m px py pu pv c a =
     (let vert = \<lparr> oid = next_oid m, vert_x = px, vert_y = py, vert_u = pu, vert_v = pv,
                    vert_color = c, vert_alpha = a \<rparr>
      in m\<lparr> vertices := vertices m @ [vert], next_oid := Suc (next_oid m) \<rparr>)"

text \<open>
  The indexed loop, \<open>for (i = 0; i < indicies.length; i++)\<close>. The flat arrays are called
  \<open>positions\<close> and \<open>uvs\<close> here (the source's parameter \<open>vertices\<close> shares its name with
  the field).
\<close>

function indexed_loop ::
  "real list \<Rightarrow> real list \<Rightarrow> int list \<Rightarrow> int number_or_array \<Rightarrow> real number_or_array \<Rightarrow> nat \<Rightarrow> mesh \<Rightarrow> mesh" where
  "indexed_loop positions uvs indicies colors alphas i m =
     (if i < length indicies then
        (let index = (indicies ! i) * 2
         in indexed_loop positions uvs indicies colors alphas (i + 1)
              (push_vertex m
                 (js_index positions index) (js_index positions (index + 1))
                 (js_index uvs index) (js_index uvs (index + 1))
                 (pick colors i) (pick alphas i)))
      else m)"
  by pat_completeness auto
termination
  by (relation "measure (\<lambda>(positions, uvs, indicies, colors, alphas, i, m). length indicies - i)") auto

declare indexed_loop.simps [simp del]

text \<open>
  The non-indexed loop, \<open>for (i = 0; i < vertices.length; i += 2)\<close> with its
  \<open>colorIndex\<close> counter.
\<close>

function nonindexed_loop ::
  "real list \<Rightarrow> real list \<Rightarrow> int number_or_array \<Rightarrow> real number_or_array \<Rightarrow> nat \<Rightarrow> nat \<Rightarrow> mesh \<Rightarrow> mesh" where
  "nonindexed_loop positions uvs colors alphas i colorIndex m =
     (if i < length positions then
        nonindexed_loop positions uvs colors alphas (i + 2) (colorIndex + 1)
          (push_vertex m
             (js_nth positions i) (js_nth positions (i + 1))
             (js_nth uvs i) (js_nth uvs (i + 1))
             (pick colors colorIndex) (pick alphas colorIndex))
      else m)"
  by pat_completeness auto
termination
  by (relation "measure (\<lambda>(positions, uvs, colors, alphas, i, colorIndex, m). length positions - i)") auto

declare nonindexed_loop.simps [simp del]

text \<open>
  The face loop, \<open>for (i = 0; i < verts.length; i += 3)\<close>, pushing
  \<open>new Face(verts[i], verts[i + 1], verts[i + 2])\<close> onto \<open>this.faces\<close>.
\<close>

function faces_loop :: "nat \<Rightarrow> mesh \<Rightarrow> mesh" where
  "faces_loop i m =
     (if i < length (vertices m) then
        (let verts = vertices m;
             f = \<lparr> vertex1 = js_nth verts i, vertex2 = js_nth verts (i + 1),
                   vertex3 = js_nth verts (i + 2) \<rparr>
         in faces_loop (i + 3) (m\<lparr> faces := faces m @ [f] \<rparr>))
      else m)"
  by pat_completeness auto
termination
  by (relation "measure (\<lambda>(i, m). length (vertices m) - i)") auto

declare faces_loop.simps [simp del]

definition addVertices ::
  "mesh \<Rightarrow> real list \<Rightarrow> real list \<Rightarrow> int list option \<Rightarrow> int number_or_array \<Rightarrow> real number_or_array
     \<Rightarrow> completion \<times> mesh" where
  "addVertices m positions uvs indicies colors alphas =
     (let colors = or_default colors 0xffffff;
          alphas = or_default alphas 1
      in if length positions \<noteq> length uvs
         then (Threw (Error ''Mesh - vertices and uv count not equal''), m)
         else
           (let m1 = (case indicies of
                        Some ixs \<Rightarrow> indexed_loop positions uvs ixs colors alphas 0 m
                      | None \<Rightarrow> nonindexed_loop positions uvs colors alphas 0 0 m);
                m2 = faces_loop 0 m1
            in (Returned, m2)))"

section \<open>getFaceAt\<close>

text \<open>
  The calc matrix is a 2D affine transform \<open>(a, b, c, d, tx, ty)\<close>.
  \<open>GetCalcMatrix\<close> and \<open>Face.contains\<close> are required from other files, so
  \<open>getFaceAt\<close> takes them as parameters: \<open>GetCalcMatrix m camera\<close> is
  \<open>GetCalcMatrix(this, camera).calc\<close>, and \<open>contains face px py calcMatrix\<close> is the
  boolean the \<open>if\<close> tests.
\<close>

record matrix =
  mat_a :: real
  mat_b :: real
  mat_c :: real
  mat_d :: real
  mat_tx :: real
  mat_ty :: real

function getFaceAt_loop ::
  "(face \<Rightarrow> real \<Rightarrow> real \<Rightarrow> matrix \<Rightarrow> bool) \<Rightarrow> face list \<Rightarrow> real \<Rightarrow> real \<Rightarrow> matrix \<Rightarrow> nat \<Rightarrow> face list
     \<Rightarrow> face list" where
  "getFaceAt_loop contains fs px py calcMatrix i results =
     (if i < length fs then
        (let f = fs ! i
         in getFaceAt_loop contains fs px py calcMatrix (i + 1)
              (if contains f px py calcMatrix then results @ [f] else results))
      else results)"
  by pat_completeness auto
termination
  by (relation "measure (\<lambda>(contains, fs, px, py, calcMatrix, i, results). length fs - i)") auto

declare getFaceAt_loop.simps [simp del]

definition getFaceAt ::
  "(face \<Rightarrow> real \<Rightarrow> real \<Rightarrow> matrix \<Rightarrow> bool) \<Rightarrow> (mesh \<Rightarrow> camera \<Rightarrow> matrix) \<Rightarrow> mesh \<Rightarrow> real \<Rightarrow> real
     \<Rightarrow> camera option \<Rightarrow> face list" where
  "getFaceAt contains GetCalcMatrix m px py cam =
     (let cam1 = (case cam of None \<Rightarrow> main_camera m | Some c \<Rightarrow> c);
          calcMatrix = GetCalcMatrix m cam1
      in getFaceAt_loop contains (faces m) px py calcMatrix 0 [])"

section \<open>Face.contains\<close>

type_synonym point = "real \<times> real"

definition apply_matrix :: "matrix \<Rightarrow> point \<Rightarrow> point" where
  "apply_matrix M p =
     (fst p * mat_a M + snd p * mat_c M + mat_tx M,
      fst p * mat_b M + snd p * mat_d M + mat_ty M)"

text \<open>
  The cross product of the edge from \<open>a\<close> to \<open>b\<close> with the vector from \<open>a\<close> to \<open>p\<close>.
\<close>

definition edge_cross :: "point \<Rightarrow> point \<Rightarrow> point \<Rightarrow> real" where
  "edge_cross a b p = (fst b - fst a) * (snd p - snd a) - (snd b - snd a) * (fst p - fst a)"

definition triangle_contains :: "point \<Rightarrow> point \<Rightarrow> point \<Rightarrow> point \<Rightarrow> bool" where
  "triangle_contains p1 p2 p3 p =
     (let d1 = edge_cross p1 p2 p;
          d2 = edge_cross p2 p3 p;
          d3 = edge_cross p3 p1 p
      in if edge_cross p1 p2 p3 = 0 then False
         else (0 \<le> d1 \<and> 0 \<le> d2 \<and> 0 \<le> d3) \<or> (d1 \<le> 0 \<and> d2 \<le> 0 \<and> d3 \<le> 0))"

definition vertex_point :: "vertex \<Rightarrow> point option" where
  "vertex_point vt =
     (case (vert_x vt, vert_y vt) of (Some a, Some b) \<Rightarrow> Some (a, b) | _ \<Rightarrow> None)"

definition face_points :: "face \<Rightarrow> (point \<times> point \<times> point) option" where
  "face_points f =
     (case (vertex1 f, vertex2 f, vertex3 f) of
        (Some v1, Some v2, Some v3) \<Rightarrow>
          (case (vertex_point v1, vertex_point v2, vertex_point v3) of
             (Some p1, Some p2, Some p3) \<Rightarrow> Some (p1, p2, p3)
           | _ \<Rightarrow> None)
      | _ \<Rightarrow> None)"

text \<open>
  Modelled from the spec: \<open>Face.contains\<close> (Face.js is not under src/). "Apply the
  supplied 2D affine matrix to each of the three vertex local positions to obtain
  screen-space coordinates. [...] compute the three edge cross products relative to the
  test point; the point is inside (inclusive of boundary) iff all three signs are
  non-negative or all non-positive. This must handle degenerate (zero-area) triangles by
  returning false". The spec describes a face of three vertices with numeric positions
  only; for a face with an undefined reference or coordinate the model answers
  \<open>False\<close>.
\<close>

definition Face_contains :: "face \<Rightarrow> real \<Rightarrow> real \<Rightarrow> matrix \<Rightarrow> bool" where
  "Face_contains f px py calcMatrix =
     (case face_points f of
        Some (p1, p2, p3) \<Rightarrow>
          triangle_contains (apply_matrix calcMatrix p1) (apply_matrix calcMatrix p2)
            (apply_matrix calcMatrix p3) (px, py)
      | None \<Rightarrow> False)"

definition identity_matrix :: matrix where
  "identity_matrix = \<lparr> mat_a = 1, mat_b = 0, mat_c = 0, mat_d = 1, mat_tx = 0, mat_ty = 0 \<rparr>"

section \<open>Example meshes\<close>

text \<open>
  A mesh of one triangle, built the way the constructor does, and the object identities a
  face refers to.
\<close>

definition triangle_mesh :: mesh where
  "triangle_mesh =
     snd (addVertices Mesh_init [0, 0, 10, 0, 0, 10] [0, 0, 1, 0, 0, 1] None Omitted Omitted)"

definition face_oids :: "face \<Rightarrow> nat option list" where
  "face_oids f = map (map_option oid) [vertex1 f, vertex2 f, vertex3 f]"

text \<open>
  The face \<open>addVertices\<close> builds from three vertices at the origin.
\<close>

definition origin_vertex :: "nat \<Rightarrow> vertex" where
  "origin_vertex n = \<lparr> oid = n, vert_x = Some 0, vert_y = Some 0, vert_u = Some 0, vert_v = Some 0,
     vert_color = Some 0xffffff, vert_alpha = Some 1 \<rparr>"

definition origin_face :: face where
  "origin_face = \<lparr> vertex1 = Some (origin_vertex 0), vertex2 = Some (origin_vertex 1),
     vertex3 = Some (origin_vertex 2) \<rparr>"

section \<open>Array reads\<close>

lemma js_nth_eq: "js_nth as n = (if n < length as then Some (as ! n) else None)"
proof (induction as arbitrary: n)
  case Nil
  show ?case by simp
next
  case (Cons a as)
  show ?case by (cases n) (simp_all add: Cons.IH)
qed

section \<open>What the three loops of addVertices compute\<close>

lemma map_upt_Suc_shift: "map f [0..<Suc n] = f 0 # map (\<lambda>j. f (Suc j)) [0..<n]"
  by (simp add: upt_rec [of 0] map_Suc_upt [symmetric] del: upt_Suc)

lemma indexed_loop_eq:
  "indexed_loop positions uvs ixs colors alphas i m =
     m\<lparr> vertices := vertices m @
           map (\<lambda>j. \<lparr> oid = next_oid m + j,
                       vert_x = js_index positions (ixs ! (i + j) * 2),
                       vert_y = js_index positions (ixs ! (i + j) * 2 + 1),
                       vert_u = js_index uvs (ixs ! (i + j) * 2),
                       vert_v = js_index uvs (ixs ! (i + j) * 2 + 1),
                       vert_color = pick colors (i + j),
                       vert_alpha = pick alphas (i + j) \<rparr>) [0..<length ixs - i],
         next_oid := next_oid m + (length ixs - i) \<rparr>"
proof (induction positions uvs ixs colors alphas i m rule: indexed_loop.induct)
  case (1 positions uvs ixs colors alphas i m)
  show ?case
  proof (cases "i < length ixs")
    case False
    then show ?thesis by (simp add: indexed_loop.simps [of _ _ _ _ _ i])
  next
    case True
    then have n: "length ixs - i = Suc (length ixs - (i + 1))" by simp
    show ?thesis
      apply (subst indexed_loop.simps)
      apply (simp only: True if_True Let_def)
      apply (subst "1.IH" [OF True refl])
      apply (simp add: n map_upt_Suc_shift push_vertex_def add.assoc del: upt_Suc)
      done
  qed
qed

lemma nonindexed_loop_eq:
  "nonindexed_loop positions uvs colors alphas i ci m =
     m\<lparr> vertices := vertices m @
           map (\<lambda>j. \<lparr> oid = next_oid m + j,
                       vert_x = js_nth positions (i + 2 * j),
                       vert_y = js_nth positions (i + 2 * j + 1),
                       vert_u = js_nth uvs (i + 2 * j),
                       vert_v = js_nth uvs (i + 2 * j + 1),
                       vert_color = pick colors (ci + j),
                       vert_alpha = pick alphas (ci + j) \<rparr>) [0..<(length positions - i + 1) div 2],
         next_oid := next_oid m + (length positions - i + 1) div 2 \<rparr>"
proof (induction positions uvs colors alphas i ci m rule: nonindexed_loop.induct)
  case (1 positions uvs colors alphas i ci m)
  show ?case
  proof (cases "i < length positions")
    case False
    then show ?thesis by (simp add: nonindexed_loop.simps [of _ _ _ _ i])
  next
    case True
    then have n: "(length positions - i + 1) div 2 = Suc ((length positions - (i + 2) + 1) div 2)"
      by arith
    show ?thesis
      apply (subst nonindexed_loop.simps)
      apply (simp only: True if_True Let_def)
      apply (subst "1.IH" [OF True])
      apply (simp only: n map_upt_Suc_shift)
      apply (simp add: push_vertex_def)
      done
  qed
qed

lemma faces_loop_eq:
  "faces_loop i m =
     m\<lparr> faces := faces m @
           map (\<lambda>j. \<lparr> vertex1 = js_nth (vertices m) (i + 3 * j),
                       vertex2 = js_nth (vertices m) (i + 3 * j + 1),
                       vertex3 = js_nth (vertices m) (i + 3 * j + 2) \<rparr>)
             [0..<(length (vertices m) - i + 2) div 3] \<rparr>"
proof (induction i m rule: faces_loop.induct)
  case (1 i m)
  show ?case
  proof (cases "i < length (vertices m)")
    case False
    then show ?thesis by (simp add: faces_loop.simps [of i])
  next
    case True
    then have n: "(length (vertices m) - i + 2) div 3 = Suc ((length (vertices m) - (i + 3) + 2) div 3)"
      by arith
    show ?thesis
      apply (subst faces_loop.simps)
      apply (simp only: True if_True Let_def)
      apply (subst "1.IH" [OF True refl refl])
      apply (simp only: n map_upt_Suc_shift)
      apply (simp add: ac_simps)
      done
  qed
qed

lemma vertices_faces_loop: "vertices (faces_loop i m) = vertices m"
  by (subst faces_loop_eq) simp

lemma addVertices_equal_lengths:
  "length positions = length uvs \<Longrightarrow>
   addVertices m positions uvs indicies colors alphas =
     (Returned,
      faces_loop 0
        (case indicies of
           Some ixs \<Rightarrow> indexed_loop positions uvs ixs (or_default colors 0xffffff) (or_default alphas 1) 0 m
         | None \<Rightarrow> nonindexed_loop positions uvs (or_default colors 0xffffff) (or_default alphas 1) 0 0 m))"
  by (simp add: addVertices_def Let_def)

lemma addVertices_faces:
  "length positions = length uvs \<Longrightarrow>
   faces (snd (addVertices m positions uvs indicies colors alphas)) =
     faces m @
     map (\<lambda>j. \<lparr> vertex1 = js_nth (vertices (snd (addVertices m positions uvs indicies colors alphas))) (3 * j),
                 vertex2 = js_nth (vertices (snd (addVertices m positions uvs indicies colors alphas))) (3 * j + 1),
                 vertex3 = js_nth (vertices (snd (addVertices m positions uvs indicies colors alphas))) (3 * j + 2) \<rparr>)
       [0..<(length (vertices (snd (addVertices m positions uvs indicies colors alphas))) + 2) div 3]"
  apply (simp only: addVertices_equal_lengths snd_conv vertices_faces_loop)
  apply (subst faces_loop_eq)
  apply (cases indicies)
   apply (simp_all add: indexed_loop_eq nonindexed_loop_eq)
  done

lemma addVertices_vertices_indexed:
  "length positions = length uvs \<Longrightarrow>
   vertices (snd (addVertices m positions uvs (Some ixs) colors alphas)) =
     vertices m @
     map (\<lambda>i. \<lparr> oid = next_oid m + i,
                 vert_x = js_index positions (ixs ! i * 2),
                 vert_y = js_index positions (ixs ! i * 2 + 1),
                 vert_u = js_index uvs (ixs ! i * 2),
                 vert_v = js_index uvs (ixs ! i * 2 + 1),
                 vert_color = pick (or_default colors 0xffffff) i,
                 vert_alpha = pick (or_default alphas 1) i \<rparr>) [0..<length ixs]"
  by (simp add: addVertices_equal_lengths vertices_faces_loop indexed_loop_eq)

lemma addVertices_vertices_nonindexed:
  "length positions = length uvs \<Longrightarrow>
   vertices (snd (addVertices m positions uvs None colors alphas)) =
     vertices m @
     map (\<lambda>j. \<lparr> oid = next_oid m + j,
                 vert_x = js_nth positions (2 * j),
                 vert_y = js_nth positions (2 * j + 1),
                 vert_u = js_nth uvs (2 * j),
                 vert_v = js_nth uvs (2 * j + 1),
                 vert_color = pick (or_default colors 0xffffff) j,
                 vert_alpha = pick (or_default alphas 1) j \<rparr>) [0..<(length positions + 1) div 2]"
  by (simp add: addVertices_equal_lengths vertices_faces_loop nonindexed_loop_eq)

section \<open>Counting faces\<close>

lemma ceil_third_eq_floor: "((n::nat) + 2) div 3 = n div 3 \<longleftrightarrow> n mod 3 = 0"
  by arith

lemma div_2_div_3: "(L::nat) div 2 div 3 = L div 6"
  by (simp add: div_mult2_eq [symmetric])

lemma ceil_third_of_half: "(((L::nat) + 1) div 2 + 2) div 3 = L div 6 \<longleftrightarrow> L mod 6 = 0"
proof -
  define q where "q = L div 6"
  define r where "r = L mod 6"
  have L: "L = 6 * q + r" and r: "r < 6" by (simp_all add: q_def r_def)
  have h: "(L + 1) div 2 = 3 * q + (r + 1) div 2"
    unfolding L by arith
  have d: "L div 6 = q" by (simp add: q_def)
  have "r = 0 \<or> r = 1 \<or> r = 2 \<or> r = 3 \<or> r = 4 \<or> r = 5" using r by arith
  then have "(3 * q + (r + 1) div 2 + 2) div 3 = q \<longleftrightarrow> r = 0"
    by (elim disjE) simp_all
  then show ?thesis unfolding h d r_def .
qed

lemma last_face_partial:
  assumes "length vs mod 3 \<noteq> 0"
  shows "vertex3 (last (map (\<lambda>j. \<lparr> vertex1 = js_nth vs (3 * j), vertex2 = js_nth vs (3 * j + 1),
                                    vertex3 = js_nth vs (3 * j + 2) \<rparr>) [0..<(length vs + 2) div 3])) = None"
proof -
  have "0 < (length vs + 2) div 3"
    using assms by arith
  then obtain k where k: "(length vs + 2) div 3 = Suc k"
    by (cases "(length vs + 2) div 3") simp_all
  have "length vs \<le> 3 * k + 2"
    using assms k by arith
  then show ?thesis
    unfolding k by (simp add: last_map js_nth_eq)
qed

text \<open>
  The faces one call builds on an empty mesh, counted for any equal-length input: on a
  list of complete triangles (\<open>positions.length\<close> a multiple of 6, \<open>indices.length\<close> a
  multiple of 3) the count is \<open>positions.length / 6\<close> and \<open>indices.length / 3\<close>.
\<close>

lemma addVertices_face_count_empty_mesh:
  "length positions = length uvs \<Longrightarrow> vertices m = [] \<Longrightarrow> faces m = [] \<Longrightarrow>
   fst (addVertices m positions uvs None colors alphas) = Returned
   \<and> getFaceCount (snd (addVertices m positions uvs None colors alphas)) =
       ((length positions + 1) div 2 + 2) div 3
   \<and> (getFaceCount (snd (addVertices m positions uvs None colors alphas)) = length positions div 2 div 3
        \<longleftrightarrow> length positions mod 6 = 0)
   \<and> (((length positions + 1) div 2) mod 3 \<noteq> 0 \<longrightarrow>
        vertex3 (last (faces (snd (addVertices m positions uvs None colors alphas)))) = None)
   \<and> fst (addVertices m positions uvs (Some ixs) colors alphas) = Returned
   \<and> getFaceCount (snd (addVertices m positions uvs (Some ixs) colors alphas)) =
       (length ixs + 2) div 3
   \<and> (getFaceCount (snd (addVertices m positions uvs (Some ixs) colors alphas)) = length ixs div 3
        \<longleftrightarrow> length ixs mod 3 = 0)
   \<and> (length ixs mod 3 \<noteq> 0 \<longrightarrow>
        vertex3 (last (faces (snd (addVertices m positions uvs (Some ixs) colors alphas)))) = None)"
proof -
  assume eq: "length positions = length uvs" and v0: "vertices m = []" and f0: "faces m = []"
  let ?n = "addVertices m positions uvs None colors alphas"
  let ?x = "addVertices m positions uvs (Some ixs) colors alphas"
  have rn: "fst ?n = Returned" and rx: "fst ?x = Returned"
    using eq by (simp_all add: addVertices_equal_lengths)
  have ln: "length (vertices (snd ?n)) = (length positions + 1) div 2"
    by (simp add: addVertices_vertices_nonindexed [OF eq] v0)
  have lx: "length (vertices (snd ?x)) = length ixs"
    by (simp add: addVertices_vertices_indexed [OF eq] v0)
  note fn = addVertices_faces [OF eq, of m None colors alphas, unfolded f0 append_Nil]
  note fx = addVertices_faces [OF eq, of m "Some ixs" colors alphas, unfolded f0 append_Nil]
  have cn: "getFaceCount (snd ?n) = ((length positions + 1) div 2 + 2) div 3"
    unfolding getFaceCount_def by (subst fn) (simp add: ln)
  have cx: "getFaceCount (snd ?x) = (length ixs + 2) div 3"
    unfolding getFaceCount_def by (subst fx) (simp add: lx)
  have en: "getFaceCount (snd ?n) = length positions div 2 div 3 \<longleftrightarrow> length positions mod 6 = 0"
    unfolding cn div_2_div_3 by (rule ceil_third_of_half)
  have ex: "getFaceCount (snd ?x) = length ixs div 3 \<longleftrightarrow> length ixs mod 3 = 0"
    unfolding cx by (rule ceil_third_eq_floor)
  have tn: "((length positions + 1) div 2) mod 3 \<noteq> 0 \<longrightarrow> vertex3 (last (faces (snd ?n))) = None"
  proof
    assume "((length positions + 1) div 2) mod 3 \<noteq> 0"
    then have b: "length (vertices (snd ?n)) mod 3 \<noteq> 0" unfolding ln .
    show "vertex3 (last (faces (snd ?n))) = None"
      unfolding fn by (rule last_face_partial [OF b])
  qed
  have tx: "length ixs mod 3 \<noteq> 0 \<longrightarrow> vertex3 (last (faces (snd ?x))) = None"
  proof
    assume "length ixs mod 3 \<noteq> 0"
    then have b: "length (vertices (snd ?x)) mod 3 \<noteq> 0" unfolding lx .
    show "vertex3 (last (faces (snd ?x))) = None"
      unfolding fx by (rule last_face_partial [OF b])
  qed
  show ?thesis
    using rn cn en tn rx cx ex tx by blast
qed

section \<open>The scan of getFaceAt and the containment test\<close>

lemma getFaceAt_loop_eq:
  "getFaceAt_loop contains fs px py calcMatrix i results =
     results @ filter (\<lambda>f. contains f px py calcMatrix) (drop i fs)"
proof (induction contains fs px py calcMatrix i results rule: getFaceAt_loop.induct)
  case (1 contains fs px py calcMatrix i results)
  show ?case
  proof (cases "i < length fs")
    case False
    then show ?thesis by (simp add: getFaceAt_loop.simps [of _ _ _ _ _ i])
  next
    case True
    have d: "drop i fs = fs ! i # drop (i + 1) fs"
      using True by (simp add: Cons_nth_drop_Suc)
    show ?thesis
      apply (subst getFaceAt_loop.simps)
      apply (simp only: True if_True Let_def)
      apply (subst "1.IH" [OF True refl])
      apply (simp add: d)
      done
  qed
qed

text \<open>
  An affine map scales the signed area of a triangle by its determinant, so a triangle
  that is degenerate in mesh space stays degenerate on screen.
\<close>

lemma edge_cross_apply_matrix:
  "edge_cross (apply_matrix M a) (apply_matrix M b) (apply_matrix M c) =
     (mat_a M * mat_d M - mat_b M * mat_c M) * edge_cross a b c"
  by (simp add: edge_cross_def apply_matrix_def algebra_simps)

section \<open>Clearing a mesh\<close>

text \<open>
  C5: after \<open>clearVertices\<close>, \<open>getFaceCount\<close> and \<open>getVertexCount\<close> both return 0
  whatever the mesh held before, and a second \<open>clearVertices\<close> in a row changes nothing.
\<close>

theorem clearVertices_counts_idempotent:
  "getFaceCount (clearVertices m) = 0 \<and> getVertexCount (clearVertices m) = 0
   \<and> clearVertices (clearVertices m) = clearVertices m"
  by (simp add: clearVertices_def getFaceCount_def getVertexCount_def)

text \<open>
  C10: \<open>clearVertices\<close> writes the \<open>faces\<close> and \<open>vertices\<close> collections only: the
  tint-fill flag, the debug callback, the debug graphic and the animation state are the
  ones the mesh had before the call.
\<close>

theorem clearVertices_frame:
  "tintFill (clearVertices m) = tintFill m
   \<and> debugCallback (clearVertices m) = debugCallback m
   \<and> debugGraphic (clearVertices m) = debugGraphic m
   \<and> anims (clearVertices m) = anims m
   \<and> clearVertices m = m\<lparr> faces := [], vertices := [] \<rparr>"
  by (simp add: clearVertices_def)

text \<open>
  C7: \<open>getFace(index)\<close> returns the face stored at that position when the index is
  within bounds, and \<open>undefined\<close> (no exception) for every other index, negative ones
  included.
\<close>

theorem getFace_in_range_or_undefined:
  "getFace m index =
     (if 0 \<le> index \<and> index < int (length (faces m)) then Some (faces m ! nat index) else None)"
  by (auto simp: getFace_def js_index_def js_nth_eq)

section \<open>Building vertices and faces\<close>

text \<open>
  C1: on a mesh that already has faces, a further \<open>addVertices\<close> should add faces for
  the new vertex triples only, so that no new face refers to a vertex an earlier face
  already uses. Evaluated on the one-triangle mesh with a second triangle added: the old
  face is kept, but the face loop restarts at index 0, so the call pushes a second face
  over the old vertices 0, 1, 2 before the face over the new vertices 3, 4, 5.
\<close>

theorem addVertices_again_refaces_old_vertices:
  "map face_oids (faces triangle_mesh) = [[Some 0, Some 1, Some 2]]
   \<and> fst (addVertices triangle_mesh [20, 20, 30, 20, 20, 30] [0, 0, 1, 0, 0, 1] None Omitted Omitted) = Returned
   \<and> map face_oids
        (faces (snd (addVertices triangle_mesh [20, 20, 30, 20, 20, 30] [0, 0, 1, 0, 0, 1] None Omitted Omitted)))
      = [[Some 0, Some 1, Some 2], [Some 0, Some 1, Some 2], [Some 3, Some 4, Some 5]]"
  by code_simp

text \<open>
  C2: on an empty mesh, equal-length \<open>positions\<close> and \<open>uvs\<close> should give
  \<open>floor((positions.length / 2) / 3)\<close> faces without indices and
  \<open>floor(indices.length / 3)\<close> faces with, trailing vertices being left out of the faces.
  Evaluated on four vertices, without indices and with the indices \<open>[0, 1, 2, 3]\<close>: the
  call returns, but the face loop tests \<open>i < verts.length\<close> only, so after the face over
  vertices 0, 1, 2 it builds a second face from vertex 3 and two \<open>undefined\<close> references.
  The mesh has 2 faces where \<open>floor(4 / 3) = 1\<close>.
\<close>

theorem addVertices_four_vertices_partial_face:
  "fst (addVertices Mesh_init [0, 0, 10, 0, 10, 10, 0, 10] [0, 0, 1, 0, 1, 1, 0, 1]
      None Omitted Omitted) = Returned
   \<and> map face_oids (faces (snd (addVertices Mesh_init [0, 0, 10, 0, 10, 10, 0, 10]
        [0, 0, 1, 0, 1, 1, 0, 1] None Omitted Omitted)))
       = [[Some 0, Some 1, Some 2], [Some 3, None, None]]
   \<and> getFaceCount (snd (addVertices Mesh_init [0, 0, 10, 0, 10, 10, 0, 10] [0, 0, 1, 0, 1, 1, 0, 1]
        None Omitted Omitted)) = 2
   \<and> length [0, 0, 10, 0, 10, 10, 0, 10 :: real] div 2 div 3 = 1
   \<and> fst (addVertices Mesh_init [0, 0, 10, 0, 10, 10, 0, 10] [0, 0, 1, 0, 1, 1, 0, 1]
        (Some [0, 1, 2, 3]) Omitted Omitted) = Returned
   \<and> map face_oids (faces (snd (addVertices Mesh_init [0, 0, 10, 0, 10, 10, 0, 10]
        [0, 0, 1, 0, 1, 1, 0, 1] (Some [0, 1, 2, 3]) Omitted Omitted)))
       = [[Some 0, Some 1, Some 2], [Some 3, None, None]]
   \<and> getFaceCount (snd (addVertices Mesh_init [0, 0, 10, 0, 10, 10, 0, 10] [0, 0, 1, 0, 1, 1, 0, 1]
        (Some [0, 1, 2, 3]) Omitted Omitted)) = 2
   \<and> length [0, 1, 2, 3 :: int] div 3 = 1"
  by code_simp

text \<open>
  C4: with an index array, \<open>addVertices\<close> appends one new vertex per index entry,
  repeated indices included. Entry \<open>i\<close> with value \<open>index\<close> takes its position from
  \<open>positions[index * 2]\<close>, \<open>positions[index * 2 + 1]\<close>, its uv from the same offsets of
  \<open>uvs\<close>, and its colour and alpha from \<open>colors[i]\<close> and \<open>alphas[i]\<close>, the entry's own
  place in the index array. The vertex count grows by \<open>indices.length\<close>, and the faces
  added are one per started group of three of all the mesh's vertices.
\<close>

theorem addVertices_indexed_one_vertex_per_entry:
  "length positions = length uvs \<Longrightarrow>
   fst (addVertices m positions uvs (Some ixs) colors alphas) = Returned
   \<and> vertices (snd (addVertices m positions uvs (Some ixs) colors alphas)) =
       vertices m @
       map (\<lambda>i. \<lparr> oid = next_oid m + i,
                   vert_x = js_index positions (ixs ! i * 2),
                   vert_y = js_index positions (ixs ! i * 2 + 1),
                   vert_u = js_index uvs (ixs ! i * 2),
                   vert_v = js_index uvs (ixs ! i * 2 + 1),
                   vert_color = pick (or_default colors 0xffffff) i,
                   vert_alpha = pick (or_default alphas 1) i \<rparr>) [0..<length ixs]
   \<and> getVertexCount (snd (addVertices m positions uvs (Some ixs) colors alphas)) =
       getVertexCount m + length ixs
   \<and> getFaceCount (snd (addVertices m positions uvs (Some ixs) colors alphas)) =
       getFaceCount m + (getVertexCount m + length ixs + 2) div 3"
proof -
  assume eq: "length positions = length uvs"
  have r: "fst (addVertices m positions uvs (Some ixs) colors alphas) = Returned"
    using eq by (simp add: addVertices_equal_lengths)
  note v = addVertices_vertices_indexed [OF eq, of m ixs colors alphas]
  have n: "getVertexCount (snd (addVertices m positions uvs (Some ixs) colors alphas)) =
       getVertexCount m + length ixs"
    by (simp add: getVertexCount_def v)
  have f: "getFaceCount (snd (addVertices m positions uvs (Some ixs) colors alphas)) =
       getFaceCount m + (getVertexCount m + length ixs + 2) div 3"
    unfolding getFaceCount_def
    by (subst addVertices_faces [OF eq]) (simp add: n [unfolded getVertexCount_def] getVertexCount_def)
  show ?thesis using r v n f by simp
qed


text \<open>
  The quad example: 8 position values and indices \<open>[0, 1, 2, 0, 2, 3]\<close> give 6 vertices
  and 2 faces; with six colours, vertex \<open>i\<close> gets colour \<open>i\<close> of the array although
  indices 0 and 2 occur twice.
\<close>

theorem addVertices_indexed_one_vertex_per_entry_witness:
  "length [0, 0, 10, 0, 10, 10, 0, 10 :: real] = length [0, 0, 1, 0, 1, 1, 0, 1 :: real]
   \<and> getVertexCount (snd (addVertices Mesh_init [0, 0, 10, 0, 10, 10, 0, 10] [0, 0, 1, 0, 1, 1, 0, 1]
         (Some [0, 1, 2, 0, 2, 3]) (Array [10, 11, 12, 13, 14, 15]) Omitted)) = 6
   \<and> getFaceCount (snd (addVertices Mesh_init [0, 0, 10, 0, 10, 10, 0, 10] [0, 0, 1, 0, 1, 1, 0, 1]
         (Some [0, 1, 2, 0, 2, 3]) (Array [10, 11, 12, 13, 14, 15]) Omitted)) = 2
   \<and> map vert_color (vertices (snd (addVertices Mesh_init [0, 0, 10, 0, 10, 10, 0, 10]
         [0, 0, 1, 0, 1, 1, 0, 1] (Some [0, 1, 2, 0, 2, 3]) (Array [10, 11, 12, 13, 14, 15]) Omitted)))
       = [Some 10, Some 11, Some 12, Some 13, Some 14, Some 15]
   \<and> map vert_x (vertices (snd (addVertices Mesh_init [0, 0, 10, 0, 10, 10, 0, 10]
         [0, 0, 1, 0, 1, 1, 0, 1] (Some [0, 1, 2, 0, 2, 3]) (Array [10, 11, 12, 13, 14, 15]) Omitted)))
       = [Some 0, Some 10, Some 10, Some 0, Some 10, Some 0]"
proof -
  have h: "length [0, 0, 10, 0, 10, 10, 0, 10 :: real] = length [0, 0, 1, 0, 1, 1, 0, 1 :: real]"
    by simp
  have z: "getVertexCount Mesh_init = 0" "getFaceCount Mesh_init = 0"
    by (simp_all add: Mesh_init_def getVertexCount_def getFaceCount_def)
  note t = addVertices_indexed_one_vertex_per_entry
    [OF h, of Mesh_init "[0, 1, 2, 0, 2, 3]" "Array [10, 11, 12, 13, 14, 15]" Omitted]
  have n: "getVertexCount (snd (addVertices Mesh_init [0, 0, 10, 0, 10, 10, 0, 10]
      [0, 0, 1, 0, 1, 1, 0, 1] (Some [0, 1, 2, 0, 2, 3]) (Array [10, 11, 12, 13, 14, 15]) Omitted)) = 6"
    using t [THEN conjunct2, THEN conjunct2, THEN conjunct1] z by simp
  have k: "getFaceCount (snd (addVertices Mesh_init [0, 0, 10, 0, 10, 10, 0, 10]
      [0, 0, 1, 0, 1, 1, 0, 1] (Some [0, 1, 2, 0, 2, 3]) (Array [10, 11, 12, 13, 14, 15]) Omitted)) = 2"
    using t [THEN conjunct2, THEN conjunct2, THEN conjunct2] z by simp
  have c: "map vert_color (vertices (snd (addVertices Mesh_init [0, 0, 10, 0, 10, 10, 0, 10]
         [0, 0, 1, 0, 1, 1, 0, 1] (Some [0, 1, 2, 0, 2, 3]) (Array [10, 11, 12, 13, 14, 15]) Omitted)))
       = [Some 10, Some 11, Some 12, Some 13, Some 14, Some 15]"
    by code_simp
  have x: "map vert_x (vertices (snd (addVertices Mesh_init [0, 0, 10, 0, 10, 10, 0, 10]
         [0, 0, 1, 0, 1, 1, 0, 1] (Some [0, 1, 2, 0, 2, 3]) (Array [10, 11, 12, 13, 14, 15]) Omitted)))
       = [Some 0, Some 10, Some 10, Some 0, Some 10, Some 0]"
    by code_simp
  show ?thesis
    using h n k c x by blast
qed

text \<open>
  C8: the vertices a call of \<open>addVertices\<close> constructs (those after the ones the mesh
  already had, which stay in place) all get colour \<open>0xffffff\<close> when \<open>colors\<close> is
  omitted and alpha 1 when \<open>alphas\<close> is omitted; a scalar \<open>colors\<close> or \<open>alphas\<close> is
  given to every one of them. This holds with and without an index array.
\<close>

theorem addVertices_default_and_scalar_colors:
  "length positions = length uvs \<Longrightarrow>
   take (length (vertices m)) (vertices (snd (addVertices m positions uvs indicies colors alphas)))
     = vertices m
   \<and> (\<forall>vt \<in> set (drop (length (vertices m))
                  (vertices (snd (addVertices m positions uvs indicies colors alphas)))).
        (colors = Omitted \<longrightarrow> vert_color vt = Some 0xffffff)
      \<and> (alphas = Omitted \<longrightarrow> vert_alpha vt = Some 1)
      \<and> (\<forall>c. colors = Scalar c \<longrightarrow> vert_color vt = Some c)
      \<and> (\<forall>a. alphas = Scalar a \<longrightarrow> vert_alpha vt = Some a))"
proof (cases indicies)
  case None
  assume "length positions = length uvs"
  then show ?thesis
    unfolding None by (auto simp: addVertices_vertices_nonindexed)
next
  case (Some ixs)
  assume "length positions = length uvs"
  then show ?thesis
    unfolding Some by (auto simp: addVertices_vertices_indexed)
qed


theorem addVertices_default_and_scalar_colors_witness:
  "length [0, 0, 10, 0, 0, 10 :: real] = length [0, 0, 1, 0, 0, 1 :: real]
   \<and> length (vertices (snd (addVertices Mesh_init [0, 0, 10, 0, 0, 10] [0, 0, 1, 0, 0, 1]
         None Omitted Omitted))) = 3
   \<and> list_all (\<lambda>vt. vert_color vt = Some 0xffffff \<and> vert_alpha vt = Some 1)
        (vertices (snd (addVertices Mesh_init [0, 0, 10, 0, 0, 10] [0, 0, 1, 0, 0, 1]
           None Omitted Omitted)))"
proof -
  have h: "length [0, 0, 10, 0, 0, 10 :: real] = length [0, 0, 1, 0, 0, 1 :: real]"
    by simp
  have n: "length (vertices (snd (addVertices Mesh_init [0, 0, 10, 0, 0, 10] [0, 0, 1, 0, 0, 1]
         None Omitted Omitted))) = 3"
    by code_simp
  have v: "length (vertices Mesh_init) = 0"
    by (simp add: Mesh_init_def)
  show ?thesis
    using addVertices_default_and_scalar_colors [OF h, of Mesh_init None Omitted Omitted] h n
    unfolding v list_all_iff by simp
qed

section \<open>Rejected input\<close>

text \<open>
  C3: when \<open>positions\<close> and \<open>uvs\<close> differ in length, \<open>addVertices\<close> throws its
  validation error and the mesh, its vertex and face collections included, is exactly the
  mesh before the call: the check comes before the first write.
\<close>

theorem addVertices_mismatch_throws_unchanged:
  "length positions \<noteq> length uvs \<Longrightarrow>
   addVertices m positions uvs indicies colors alphas =
     (Threw (Error ''Mesh - vertices and uv count not equal''), m)"
  by (simp add: addVertices_def Let_def)

theorem addVertices_mismatch_throws_unchanged_witness:
  "length [0, 0, 10 :: real] \<noteq> length [0, 0 :: real]
   \<and> addVertices Mesh_init [0, 0, 10] [0, 0] (Some [0, 1, 2]) (Scalar 255) Omitted =
       (Threw (Error ''Mesh - vertices and uv count not equal''), Mesh_init)"
  using addVertices_mismatch_throws_unchanged
    [of "[0, 0, 10]" "[0, 0]" Mesh_init "Some [0, 1, 2]" "Scalar 255" Omitted]
  by simp

section \<open>Hit testing\<close>

text \<open>
  C6: \<open>getFaceAt\<close> returns exactly the faces of the mesh whose containment test
  succeeds against the calc matrix of the given camera (the scene's main camera when none
  is given), in the order of the mesh's face array; on a mesh without faces the result is
  empty whatever the point and camera.
\<close>

theorem getFaceAt_is_ordered_filter:
  "getFaceAt contains GetCalcMatrix m px py cam =
     filter (\<lambda>f. contains f px py (GetCalcMatrix m (case cam of None \<Rightarrow> main_camera m | Some c \<Rightarrow> c)))
       (faces m)
   \<and> getFaceAt contains GetCalcMatrix (m\<lparr> faces := [] \<rparr>) px py cam = []"
  by (simp add: getFaceAt_def getFaceAt_loop_eq Let_def)

text \<open>
  C9: the containment test answers false for a degenerate triangle, whether its three
  mesh-space positions have zero area or the calc matrix flattens it on screen, at every
  query point; the test divides nowhere, so the answer is a plain boolean.
\<close>

theorem Face_contains_degenerate_false:
  "face_points f = Some (p1, p2, p3) \<Longrightarrow>
   edge_cross p1 p2 p3 = 0
     \<or> edge_cross (apply_matrix M p1) (apply_matrix M p2) (apply_matrix M p3) = 0 \<Longrightarrow>
   Face_contains f px py M = False"
  by (auto simp: Face_contains_def triangle_contains_def edge_cross_apply_matrix)

theorem Face_contains_degenerate_false_witness:
  "face_points origin_face = Some ((0, 0), (0, 0), (0, 0))
   \<and> edge_cross (0, 0) (0, 0) (0, 0) = 0
   \<and> Face_contains origin_face 0 0 identity_matrix = False"
proof -
  have p: "face_points origin_face = Some ((0, 0), (0, 0), (0, 0))"
    by (simp add: face_points_def origin_face_def origin_vertex_def vertex_point_def)
  have z: "edge_cross (0, 0) (0, 0) (0, 0) = 0"
    by (simp add: edge_cross_def)
  show ?thesis
    using Face_contains_degenerate_false
      [where M = identity_matrix and px = 0 and py = 0, OF p disjI1 [OF z]] p z
    by simp
qed

end
